theory Spec2Isabelle
  imports Main
begin

section \<open>wghttp: the start-up sequence of \<^verbatim>\<open>main.go\<close>\<close>

text \<open>
  The program is one Go file: it parses its options, builds a userspace network stack and a
  WireGuard device over it (\<^verbatim>\<open>setupNet\<close>), opens the proxy's listener
  (\<^verbatim>\<open>proxyListener\<close>), picks the proxy's dial function (\<^verbatim>\<open>proxyDialer\<close>)
  and serves. Everything it calls outside the file (the flag parser, \<^verbatim>\<open>netip\<close>,
  \<^verbatim>\<open>netstack\<close>, \<^verbatim>\<open>device\<close>, \<^verbatim>\<open>net\<close>, the proxy package and the
  package-level helpers \<^verbatim>\<open>newConnBind\<close>, \<^verbatim>\<open>ipcSet\<close>, \<^verbatim>\<open>stats\<close>) is a
  parameter of the model, collected in the record \<open>extern\<close>. Calls with an effect are
  written to a trace, in the order the code makes them.
\<close>

subsection \<open>Errors\<close>

text \<open>
  A Go \<^verbatim>\<open>error\<close> value. \<open>Errorf m\<close> is \<^verbatim>\<open>fmt.Errorf(m)\<close> with no verb;
  \<open>Wrap p e\<close> is \<^verbatim>\<open>fmt.Errorf(p + ": %w", e)\<close>. Errors returned by the external
  calls are values of the same type.
\<close>

datatype error = Errorf string | Wrap string error

fun Error :: "error \<Rightarrow> string" where
  "Error (Errorf m) = m"
| "Error (Wrap p e) = p @ '': '' @ Error e"

subsection \<open>The options struct and its tags\<close>

text \<open>\<^verbatim>\<open>time.Duration\<close> is a count of nanoseconds; Go's \<^verbatim>\<open>int\<close> is read as an integer
  (the file does no arithmetic on it).\<close>

record options =
  ClientIPs :: "string list"
  ClientPort :: int
  PrivateKey :: string
  DNS :: string
  MTU :: int
  PeerEndpoint :: string
  PeerKey :: string
  PresharedKey :: string
  KeepaliveInterval :: int
  ResolveDNS :: string
  ResolveInterval :: int
  Listen :: string
  ExitMode :: string
  Verbose :: bool
  ClientID :: string

text \<open>
  The struct tags of \<^verbatim>\<open>options\<close>, one entry per field in declaration order. The
  \<^verbatim>\<open>description\<close> tag is left out: it is help text only. A tag that is absent is
  \<open>None\<close> (or the empty list of choices, or \<open>False\<close> for \<^verbatim>\<open>hidden\<close>).
\<close>

record tags =
  long :: string
  short :: "string option"
  env :: "string option"
  env_delim :: "string option"
  default :: "string option"
  choice :: "string list"
  hidden :: bool

definition tag :: "string \<Rightarrow> string option \<Rightarrow> tags" where
  "tag l e = \<lparr>long = l, short = None, env = e, env_delim = None, default = None,
              choice = [], hidden = False\<rparr>"

definition options_tags :: "(string \<times> tags) list" where
  "options_tags =
    [(''ClientIPs'', (tag ''client-ip'' (Some ''CLIENT_IP''))\<lparr>env_delim := Some '',''\<rparr>),
     (''ClientPort'', tag ''client-port'' (Some ''CLIENT_PORT'')),
     (''PrivateKey'', tag ''private-key'' (Some ''PRIVATE_KEY'')),
     (''DNS'', tag ''dns'' (Some ''DNS'')),
     (''MTU'', (tag ''mtu'' (Some ''MTU''))\<lparr>default := Some ''1280''\<rparr>),
     (''PeerEndpoint'', tag ''peer-endpoint'' (Some ''PEER_ENDPOINT'')),
     (''PeerKey'', tag ''peer-key'' (Some ''PEER_KEY'')),
     (''PresharedKey'', tag ''preshared-key'' (Some ''PRESHARED_KEY'')),
     (''KeepaliveInterval'', tag ''keepalive-interval'' (Some ''KEEPALIVE_INTERVAL'')),
     (''ResolveDNS'', tag ''resolve-dns'' (Some ''RESOLVE_DNS'')),
     (''ResolveInterval'',
        (tag ''resolve-interval'' (Some ''RESOLVE_INTERVAL''))\<lparr>default := Some ''1m''\<rparr>),
     (''Listen'', (tag ''listen'' (Some ''LISTEN''))\<lparr>default := Some ''localhost:8080''\<rparr>),
     (''ExitMode'',
        (tag ''exit-mode'' (Some ''EXIT_MODE''))
          \<lparr>default := Some ''remote'', choice := [''remote'', ''local'']\<rparr>),
     (''Verbose'', (tag ''verbose'' None)\<lparr>short := Some ''v''\<rparr>),
     (''ClientID'', (tag ''client-id'' (Some ''CLIENT_ID''))\<lparr>hidden := True\<rparr>)]"

text \<open>The tags of a field, by the field's Go name.\<close>

definition field_tags :: "string \<Rightarrow> tags option" where
  "field_tags f = map_of options_tags f"

text \<open>
  What the flag parser does with the \<^verbatim>\<open>choice\<close> tags of a field: with no such tag every
  value is taken, otherwise only the listed ones (the library rejects any other value with
  an invalid-choice error). The parser is a library outside the repository; this is the one
  rule of it the tags rely on.
\<close>

definition accepts :: "string \<Rightarrow> string \<Rightarrow> bool" where
  "accepts f v =
     (case field_tags f of
        None \<Rightarrow> False
      | Some t \<Rightarrow> (if choice t = [] then True else v \<in> set (choice t)))"

subsection \<open>Handles of external objects\<close>

text \<open>Objects owned by the libraries are opaque handles.\<close>

datatype netip_Addr = Addr string
datatype tun_Device = TunDevice nat
datatype netstack_Net = Net nat
datatype conn_Bind = Bind nat
datatype device_Device = Device nat
datatype net_TCPAddr = TCPAddr string
datatype net_Listener = Listener nat

text \<open>
  What a tun device delivers on its \<^verbatim>\<open>Events()\<close> channel. The netstack's
  \<^verbatim>\<open>CreateNetTUN\<close> queues \<^verbatim>\<open>EventUp\<close> on the device it returns.
\<close>

datatype tun_Event = EventUp | EventDown | EventMTUUpdate

text \<open>\<^verbatim>\<open>device.NewLogger(level, "")\<close>: the two levels \<^verbatim>\<open>main\<close> uses.\<close>

datatype log_level = LogLevelVerbose | LogLevelError
datatype device_Logger = Logger log_level string

text \<open>
  A dial function value. \<open>NilDialer\<close> is the zero value of the function type;
  \<open>net_Dialer_DialContext\<close> is the method value of a zero \<^verbatim>\<open>net.Dialer\<close> (the host
  stack); \<open>tnet_DialContext n\<close> is the method value of the netstack \<open>n\<close>.
\<close>

datatype dialer = NilDialer | net_Dialer_DialContext | tnet_DialContext netstack_Net

text \<open>The closure \<^verbatim>\<open>stats(dev)\<close> and the \<^verbatim>\<open>proxy.Proxy\<close> struct literal.\<close>

datatype stats_func = stats device_Device
datatype proxy_Proxy = Proxy (Dial: dialer) (Proxy_DNS: string) (Stats: stats_func)

subsection \<open>External calls and the trace\<close>

datatype serve_outcome = ServeReturns | ServeBlocks

record extern =
  netip_ParseAddr :: "string \<Rightarrow> error + netip_Addr"
  netstack_CreateNetTUN ::
    "netip_Addr list \<Rightarrow> netip_Addr list \<Rightarrow> int \<Rightarrow> error + (tun_Device \<times> netstack_Net)"
  tun_Events :: "tun_Device \<Rightarrow> tun_Event list"
  newConnBind :: "string \<Rightarrow> conn_Bind"
  device_NewDevice :: "tun_Device \<Rightarrow> conn_Bind \<Rightarrow> device_Logger \<Rightarrow> device_Device"
  ipcSet :: "options \<Rightarrow> device_Device \<Rightarrow> error option"
  dev_Up :: "device_Device \<Rightarrow> error option"
  net_ResolveTCPAddr :: "string \<Rightarrow> string \<Rightarrow> error + net_TCPAddr"
  tnet_ListenTCP :: "netstack_Net \<Rightarrow> net_TCPAddr \<Rightarrow> error + net_Listener"
  net_ListenTCP :: "string \<Rightarrow> net_TCPAddr \<Rightarrow> error + net_Listener"
  proxier_Serve :: "proxy_Proxy \<Rightarrow> net_Listener \<Rightarrow> serve_outcome"

text \<open>What a log call prints after its format string.\<close>

datatype log_arg = ArgOptions options | ArgError error | ArgListenerAddr net_Listener

text \<open>
  Who calls \<^verbatim>\<open>Up\<close> on the device: \<^verbatim>\<open>setupNet\<close> itself, or the TUN event reader
  that \<^verbatim>\<open>device.NewDevice\<close> starts.
\<close>

datatype caller = by_setupNet | by_TUNEventReader

datatype event =
    EvCreateNetTUN "netip_Addr list" "netip_Addr list" int
  | EvNewConnBind string
  | EvNewDevice tun_Device conn_Bind device_Logger
  | EvIpcSet device_Device
  | EvUp caller device_Device
  | EvDown device_Device
  | EvResolveTCPAddr string string
  | EvTnetListenTCP netstack_Net net_TCPAddr
  | EvNetListenTCP string net_TCPAddr
  | EvServe proxy_Proxy net_Listener
  | EvLog string log_arg

text \<open>A logger of level error drops \<^verbatim>\<open>Verbosef\<close>; both levels print \<^verbatim>\<open>Errorf\<close>.\<close>

fun Verbosef :: "device_Logger \<Rightarrow> string \<Rightarrow> log_arg \<Rightarrow> event list" where
  "Verbosef (Logger LogLevelVerbose _) fmt a = [EvLog fmt a]"
| "Verbosef (Logger LogLevelError _) fmt a = []"

fun Errorf_log :: "device_Logger \<Rightarrow> string \<Rightarrow> log_arg \<Rightarrow> event list" where
  "Errorf_log (Logger _ _) fmt a = [EvLog fmt a]"

subsection \<open>proxyDialer\<close>

definition proxyDialer :: "options \<Rightarrow> netstack_Net \<Rightarrow> dialer" where
  "proxyDialer opts tnet =
     (if ExitMode opts = ''local'' then net_Dialer_DialContext
      else if ExitMode opts = ''remote'' then tnet_DialContext tnet
      else NilDialer)"

subsection \<open>proxyListener\<close>

text \<open>
  The function returns a listener or an error. With an exit mode that is neither
  \<^verbatim>\<open>"local"\<close> nor \<^verbatim>\<open>"remote"\<close> the switch assigns nothing and the argument
  \<^verbatim>\<open>tcpListener.Addr()\<close> of the log call is a method call on a nil interface: a run-time
  panic, whatever the log level.
\<close>

datatype listener_result = ListenerOk net_Listener | ListenerErr error | NilListenerPanic

definition proxyListener ::
  "extern \<Rightarrow> device_Logger \<Rightarrow> options \<Rightarrow> netstack_Net \<Rightarrow> listener_result \<times> event list" where
  "proxyListener ext logger opts tnet =
     (case net_ResolveTCPAddr ext ''tcp'' (Listen opts) of
        Inl err \<Rightarrow>
          (ListenerErr (Wrap ''resolve listen addr'' err),
           [EvResolveTCPAddr ''tcp'' (Listen opts)])
      | Inr tcpAddr \<Rightarrow>
          (if ExitMode opts = ''local'' then
             (case tnet_ListenTCP ext tnet tcpAddr of
                Inl err \<Rightarrow>
                  (ListenerErr (Wrap ''create listener on netstack'' err),
                   [EvResolveTCPAddr ''tcp'' (Listen opts), EvTnetListenTCP tnet tcpAddr])
              | Inr tcpListener \<Rightarrow>
                  (ListenerOk tcpListener,
                   [EvResolveTCPAddr ''tcp'' (Listen opts), EvTnetListenTCP tnet tcpAddr]
                   @ Verbosef logger ''Listening on %s'' (ArgListenerAddr tcpListener)))
           else if ExitMode opts = ''remote'' then
             (case net_ListenTCP ext ''tcp'' tcpAddr of
                Inl err \<Rightarrow>
                  (ListenerErr (Wrap ''create listener on local net'' err),
                   [EvResolveTCPAddr ''tcp'' (Listen opts), EvNetListenTCP ''tcp'' tcpAddr])
              | Inr tcpListener \<Rightarrow>
                  (ListenerOk tcpListener,
                   [EvResolveTCPAddr ''tcp'' (Listen opts), EvNetListenTCP ''tcp'' tcpAddr]
                   @ Verbosef logger ''Listening on %s'' (ArgListenerAddr tcpListener)))
           else (NilListenerPanic, [EvResolveTCPAddr ''tcp'' (Listen opts)])))"

subsection \<open>setupNet\<close>

text \<open>
  \<^verbatim>\<open>device.NewDevice\<close> does more than build the device: it starts the library's TUN
  event reader, which takes the events of the tun device and calls \<^verbatim>\<open>Up\<close> on
  \<^verbatim>\<open>EventUp\<close> and \<^verbatim>\<open>Down\<close> on \<^verbatim>\<open>EventDown\<close>, dropping what they return. The
  reader is library code that runs beside \<^verbatim>\<open>setupNet\<close>; the trace places its calls
  where the reader is started, right after \<^verbatim>\<open>NewDevice\<close>, and no property below
  depends on where among the later events they fall.
\<close>

fun RoutineTUNEventReader :: "device_Device \<Rightarrow> tun_Event list \<Rightarrow> event list" where
  "RoutineTUNEventReader dev [] = []"
| "RoutineTUNEventReader dev (EventUp # es) =
     EvUp by_TUNEventReader dev # RoutineTUNEventReader dev es"
| "RoutineTUNEventReader dev (EventDown # es) = EvDown dev # RoutineTUNEventReader dev es"
| "RoutineTUNEventReader dev (EventMTUUpdate # es) = RoutineTUNEventReader dev es"

text \<open>The loop over \<^verbatim>\<open>opts.ClientIPs\<close>: it returns at the first string that does not
  parse, and otherwise appends each address to \<^verbatim>\<open>clientIPs\<close>.\<close>

fun parse_clientIPs :: "extern \<Rightarrow> string list \<Rightarrow> netip_Addr list \<Rightarrow> error + netip_Addr list" where
  "parse_clientIPs ext [] clientIPs = Inr clientIPs"
| "parse_clientIPs ext (s # ss) clientIPs =
     (case netip_ParseAddr ext s of
        Inl err \<Rightarrow> Inl (Wrap ''parse client IP'' err)
      | Inr ip \<Rightarrow> parse_clientIPs ext ss (clientIPs @ [ip]))"

definition setupNet ::
  "extern \<Rightarrow> device_Logger \<Rightarrow> options \<Rightarrow> (error + device_Device \<times> netstack_Net) \<times> event list" where
  "setupNet ext logger opts =
     (if length (ClientIPs opts) = 0 then (Inl (Errorf ''client IP is required''), [])
      else
        case parse_clientIPs ext (ClientIPs opts) [] of
          Inl err \<Rightarrow> (Inl err, [])
        | Inr clientIPs \<Rightarrow>
            (case netstack_CreateNetTUN ext clientIPs [] (MTU opts) of
               Inl err \<Rightarrow>
                 (Inl (Wrap ''create netstack tun'' err),
                  [EvCreateNetTUN clientIPs [] (MTU opts)])
             | Inr (tun, tnet) \<Rightarrow>
                 (let bind = newConnBind ext (ClientID opts);
                      dev = device_NewDevice ext tun bind logger;
                      made = [EvCreateNetTUN clientIPs [] (MTU opts),
                              EvNewConnBind (ClientID opts),
                              EvNewDevice tun bind logger]
                             @ RoutineTUNEventReader dev (tun_Events ext tun)
                  in case ipcSet ext opts dev of
                       Some err \<Rightarrow> (Inl (Wrap ''config device'' err), made @ [EvIpcSet dev])
                     | None \<Rightarrow>
                         (case dev_Up ext dev of
                            Some err \<Rightarrow>
                              (Inl (Wrap ''bring up device'' err),
                               made @ [EvIpcSet dev, EvUp by_setupNet dev])
                          | None \<Rightarrow> (Inr (dev, tnet), made @ [EvIpcSet dev, EvUp by_setupNet dev])))))"

subsection \<open>main\<close>

text \<open>
  What \<^verbatim>\<open>parser.Parse()\<close> hands back: the filled options, or an error that is either a
  \<^verbatim>\<open>*flags.Error\<close> with its type, or some other error. Of the library's error types
  \<^verbatim>\<open>main\<close> tells only \<^verbatim>\<open>ErrHelp\<close> from the rest.
\<close>

datatype flags_ErrorType = ErrHelp | ErrOtherType nat
datatype parse_error = flags_Error flags_ErrorType | other_error error

text \<open>
  How the process ends: \<^verbatim>\<open>os.Exit\<close> with a code, a run-time panic, or not at all
  (the serve call does not return).
\<close>

datatype outcome = Exit int | Panic | Serving

text \<open>The logger that \<^verbatim>\<open>main\<close> stores in the global \<^verbatim>\<open>logger\<close> once the options
  are parsed.\<close>

definition main_logger :: "options \<Rightarrow> device_Logger" where
  "main_logger opts =
     (if Verbose opts then Logger LogLevelVerbose '''' else Logger LogLevelError '''')"

definition main :: "extern \<Rightarrow> parse_error + options \<Rightarrow> outcome \<times> event list" where
  "main ext parsed =
     (case parsed of
        Inl err \<Rightarrow>
          (Exit (case err of
                   flags_Error t \<Rightarrow> (if t = ErrHelp then 0 else 1)
                 | other_error _ \<Rightarrow> 1), [])
      | Inr opts \<Rightarrow>
          (let logger = main_logger opts;
               t0 = Verbosef logger ''Options: %+v'' (ArgOptions opts)
           in case setupNet ext logger opts of
                (Inl err, t1) \<Rightarrow>
                  (Exit 1, t0 @ t1 @ Errorf_log logger ''Setup netstack: %v'' (ArgError err))
              | (Inr (dev, tnet), t1) \<Rightarrow>
                  (case proxyListener ext logger opts tnet of
                     (ListenerErr err, t2) \<Rightarrow>
                       (Exit 1,
                        t0 @ t1 @ t2
                        @ Errorf_log logger ''Create net listener: %v'' (ArgError err))
                   | (NilListenerPanic, t2) \<Rightarrow> (Panic, t0 @ t1 @ t2)
                   | (ListenerOk listener, t2) \<Rightarrow>
                       (let proxier = Proxy (proxyDialer opts tnet) (DNS opts) (stats dev)
                        in case proxier_Serve ext proxier listener of
                             ServeReturns \<Rightarrow>
                               (Exit 1, t0 @ t1 @ t2 @ [EvServe proxier listener])
                           | ServeBlocks \<Rightarrow>
                               (Serving, t0 @ t1 @ t2 @ [EvServe proxier listener])))))"

subsection \<open>The Endpoint Resolver\<close>

text \<open>
  Modelled from the spec: the Endpoint Resolver, whose code is not in \<^verbatim>\<open>main.go\<close>
  (only the option \<^verbatim>\<open>ResolveInterval\<close>, "set 0 to disable", is declared there).
  The outcome of one resolution of the peer's host name: a socket address, or a failure.
\<close>

datatype resolution = Resolved string | ResolveFailed

text \<open>
  Modelled from the spec: what the resolver changes, the peer address the session sends to,
  together with the number of resolutions performed so far.
\<close>

record resolver_state =
  peer_endpoint :: string
  resolutions :: nat

text \<open>
  Modelled from the spec: one would-be resolution trigger. With a resolve interval of 0 the
  resolver does no periodic work. Otherwise it resolves; a result that differs from the
  session's current peer address replaces it, and a failure keeps the previous address.
\<close>

definition resolver_trigger :: "int \<Rightarrow> resolver_state \<Rightarrow> resolution \<Rightarrow> resolver_state" where
  "resolver_trigger interval st r =
     (if interval = 0 then st
      else case r of
             ResolveFailed \<Rightarrow> st\<lparr>resolutions := resolutions st + 1\<rparr>
           | Resolved a \<Rightarrow>
               (if a \<noteq> peer_endpoint st
                then st\<lparr>peer_endpoint := a, resolutions := resolutions st + 1\<rparr>
                else st\<lparr>resolutions := resolutions st + 1\<rparr>))"

text \<open>Modelled from the spec: the resolver loop over the outcomes of successive triggers.\<close>

fun resolver_run :: "int \<Rightarrow> resolver_state \<Rightarrow> resolution list \<Rightarrow> resolver_state" where
  "resolver_run interval st [] = st"
| "resolver_run interval st (r # rs) = resolver_run interval (resolver_trigger interval st r) rs"

subsection \<open>A sample environment\<close>

text \<open>
  One concrete choice of the external calls and of the options, used to run the model and
  to instantiate the theorems below. Every call succeeds; a theorem about a failure updates
  the field that fails. The tun device has \<^verbatim>\<open>EventUp\<close> queued, as the netstack's has.
\<close>

definition sample_ParseAddr :: "string \<Rightarrow> error + netip_Addr" where
  "sample_ParseAddr s =
     (if s = ''10.0.0.2'' \<or> s = ''fd00::2'' then Inr (Addr s)
      else Inl (Errorf ''unable to parse IP''))"

definition sample_extern :: extern where
  "sample_extern =
     \<lparr>netip_ParseAddr = sample_ParseAddr,
      netstack_CreateNetTUN = (\<lambda>ips dns mtu. Inr (TunDevice 1, Net 1)),
      tun_Events = (\<lambda>tun. [EventUp]),
      newConnBind = (\<lambda>cid. Bind (length cid)),
      device_NewDevice = (\<lambda>tun bind lg. Device 1),
      ipcSet = (\<lambda>opts dev. None),
      dev_Up = (\<lambda>dev. None),
      net_ResolveTCPAddr = (\<lambda>network address. Inr (TCPAddr address)),
      tnet_ListenTCP = (\<lambda>tnet a. Inr (Listener 1)),
      net_ListenTCP = (\<lambda>network a. Inr (Listener 2)),
      proxier_Serve = (\<lambda>p l. ServeReturns)\<rparr>"

definition sample_options :: options where
  "sample_options =
     \<lparr>ClientIPs = [''10.0.0.2''], ClientPort = 0, PrivateKey = '''', DNS = '''', MTU = 1280,
      PeerEndpoint = ''vpn.example.com:51820'', PeerKey = '''', PresharedKey = '''',
      KeepaliveInterval = 0, ResolveDNS = '''', ResolveInterval = 60000000000,
      Listen = ''localhost:8080'', ExitMode = ''remote'', Verbose = False, ClientID = ''''\<rparr>"

section \<open>Properties\<close>

subsection \<open>The address loop\<close>

lemma parse_clientIPs_malformed:
  "s \<in> set ss \<Longrightarrow> isl (netip_ParseAddr ext s) \<Longrightarrow>
     \<exists>s' \<in> set ss. \<exists>err. netip_ParseAddr ext s' = Inl err
        \<and> parse_clientIPs ext ss acc = Inl (Wrap ''parse client IP'' err)"
proof (induction ss arbitrary: acc)
  case Nil
  then show ?case by simp
next
  case (Cons a ss)
  show ?case
  proof (cases "netip_ParseAddr ext a")
    case (Inl err)
    then show ?thesis by auto
  next
    case (Inr ip)
    with Cons.prems have "s \<in> set ss" by auto
    from Cons.IH [OF this Cons.prems(2), of "acc @ [ip]"] Inr show ?thesis by auto
  qed
qed

lemma parse_clientIPs_ok:
  "parse_clientIPs ext ss acc = Inr ips \<Longrightarrow>
     \<exists>new. ips = acc @ new \<and> list_all2 (\<lambda>s ip. netip_ParseAddr ext s = Inr ip) ss new"
proof (induction ss arbitrary: acc)
  case Nil
  then show ?case by simp
next
  case (Cons a ss)
  then obtain ip where ip: "netip_ParseAddr ext a = Inr ip"
    by (cases "netip_ParseAddr ext a") auto
  with Cons.prems have "parse_clientIPs ext ss (acc @ [ip]) = Inr ips" by simp
  from Cons.IH [OF this] obtain new where
    "ips = (acc @ [ip]) @ new" "list_all2 (\<lambda>s ip. netip_ParseAddr ext s = Inr ip) ss new"
    by blast
  with ip show ?case by (intro exI [of _ "ip # new"]) simp
qed

lemma parse_clientIPs_err:
  "parse_clientIPs ext ss acc = Inl e \<Longrightarrow>
     \<exists>s \<in> set ss. \<exists>err. netip_ParseAddr ext s = Inl err \<and> e = Wrap ''parse client IP'' err"
  by (induction ss arbitrary: acc) (auto split: sum.splits)

lemma parse_clientIPs_all2:
  "list_all2 (\<lambda>s ip. netip_ParseAddr ext s = Inr ip) ss ips \<Longrightarrow>
     parse_clientIPs ext ss acc = Inr (acc @ ips)"
  by (induction ss ips arbitrary: acc rule: list_all2_induct) auto

subsection \<open>The options\<close>

text \<open>
  C7. The tags give MTU the default 1280, the resolve interval the default 1m, the listen
  address the default localhost:8080 and the exit mode the default "remote"; the exit mode
  takes exactly the values "remote" and "local"; the client id option is hidden.
\<close>

theorem options_defaults:
  "map_option default (field_tags ''MTU'') = Some (Some ''1280'')
   \<and> map_option default (field_tags ''ResolveInterval'') = Some (Some ''1m'')
   \<and> map_option default (field_tags ''Listen'') = Some (Some ''localhost:8080'')
   \<and> map_option default (field_tags ''ExitMode'') = Some (Some ''remote'')
   \<and> (\<forall>v. accepts ''ExitMode'' v \<longleftrightarrow> v = ''remote'' \<or> v = ''local'')
   \<and> map_option hidden (field_tags ''ClientID'') = Some True"
  by (simp add: field_tags_def options_tags_def tag_def accepts_def)

theorem options_defaults_witness:
  "accepts ''ExitMode'' ''local'' \<and> \<not> accepts ''ExitMode'' ''both''"
  using options_defaults by simp

subsection \<open>setupNet\<close>

lemma setupNet_Inl:
  assumes "fst (setupNet ext logger opts) = Inl e"
  shows "(ClientIPs opts = [] \<and> e = Errorf ''client IP is required'')
       \<or> (\<exists>s \<in> set (ClientIPs opts). \<exists>err.
             netip_ParseAddr ext s = Inl err \<and> e = Wrap ''parse client IP'' err)
       \<or> (\<exists>ips err. netstack_CreateNetTUN ext ips [] (MTU opts) = Inl err
             \<and> e = Wrap ''create netstack tun'' err)
       \<or> (\<exists>dev err. ipcSet ext opts dev = Some err \<and> e = Wrap ''config device'' err)
       \<or> (\<exists>dev err. dev_Up ext dev = Some err \<and> e = Wrap ''bring up device'' err)"
proof (cases "ClientIPs opts = []")
  case True
  with assms have "e = Errorf ''client IP is required''" by (simp add: setupNet_def)
  with True show ?thesis by simp
next
  case False
  show ?thesis
  proof (cases "parse_clientIPs ext (ClientIPs opts) []")
    case (Inl perr)
    with False assms have "e = perr" by (simp add: setupNet_def)
    with parse_clientIPs_err [OF Inl] show ?thesis by auto
  next
    case (Inr ips)
    with False assms show ?thesis
      by (auto simp add: setupNet_def Let_def split: sum.splits prod.splits option.splits)
  qed
qed

lemma setupNet_Inr:
  assumes "fst (setupNet ext logger opts) = Inr (dev, tnet)"
  shows "\<exists>ips tun. list_all2 (\<lambda>s ip. netip_ParseAddr ext s = Inr ip) (ClientIPs opts) ips
           \<and> netstack_CreateNetTUN ext ips [] (MTU opts) = Inr (tun, tnet)
           \<and> dev = device_NewDevice ext tun (newConnBind ext (ClientID opts)) logger
           \<and> ipcSet ext opts dev = None \<and> dev_Up ext dev = None"
proof (cases "parse_clientIPs ext (ClientIPs opts) []")
  case (Inl perr)
  with assms show ?thesis by (simp add: setupNet_def split: if_splits)
next
  case (Inr ips)
  from parse_clientIPs_ok [OF Inr]
  have all2: "list_all2 (\<lambda>s ip. netip_ParseAddr ext s = Inr ip) (ClientIPs opts) ips" by simp
  from assms Inr obtain tun where
    "netstack_CreateNetTUN ext ips [] (MTU opts) = Inr (tun, tnet)"
    "dev = device_NewDevice ext tun (newConnBind ext (ClientID opts)) logger"
    "ipcSet ext opts dev = None" "dev_Up ext dev = None"
    by (auto simp add: setupNet_def Let_def split: if_splits sum.splits prod.splits option.splits)
  with all2 show ?thesis by auto
qed

lemma main_setup_failed:
  assumes "fst (setupNet ext (main_logger opts) opts) = Inl e"
  shows "main ext (Inr opts) =
           (Exit 1,
            Verbosef (main_logger opts) ''Options: %+v'' (ArgOptions opts)
            @ snd (setupNet ext (main_logger opts) opts)
            @ [EvLog ''Setup netstack: %v'' (ArgError e)])"
proof -
  obtain r t where rt: "setupNet ext (main_logger opts) opts = (r, t)" by (cases "setupNet ext (main_logger opts) opts")
  with assms have "r = Inl e" by simp
  moreover have "Errorf_log (main_logger opts) ''Setup netstack: %v'' (ArgError e) = [EvLog ''Setup netstack: %v'' (ArgError e)]"
    by (simp add: main_logger_def)
  ultimately show ?thesis using rt by (simp add: main_def Let_def)
qed

lemma RoutineTUNEventReader_events:
  "ev \<in> set (RoutineTUNEventReader dev es) \<Longrightarrow>
     (ev = EvUp by_TUNEventReader dev \<and> EventUp \<in> set es)
     \<or> (ev = EvDown dev \<and> EventDown \<in> set es)"
  by (induction dev es rule: RoutineTUNEventReader.induct) auto

lemma setupNet_trace_no_listen:
  "ev \<in> set (snd (setupNet ext logger opts)) \<Longrightarrow>
     (\<forall>n a. ev \<noteq> EvResolveTCPAddr n a) \<and> (\<forall>n a. ev \<noteq> EvTnetListenTCP n a)
     \<and> (\<forall>n a. ev \<noteq> EvNetListenTCP n a) \<and> (\<forall>p l. ev \<noteq> EvServe p l)"
  by (auto simp add: setupNet_def Let_def
        split: if_splits sum.splits prod.splits option.splits
        dest: RoutineTUNEventReader_events)

lemma Verbosef_is_log: "ev \<in> set (Verbosef lg f a) \<Longrightarrow> ev = EvLog f a"
  by (cases "(lg, f, a)" rule: Verbosef.cases) auto

text \<open>
  C2. With no client address configured, \<^verbatim>\<open>setupNet\<close> returns the error
  "client IP is required" and makes no external call before it: the trace is empty, so
  neither the network stack nor the device has been created.
\<close>

theorem setupNet_no_client_IP:
  "ClientIPs opts = [] \<Longrightarrow>
     setupNet ext logger opts = (Inl (Errorf ''client IP is required''), [])"
  by (simp add: setupNet_def)

theorem setupNet_no_client_IP_witness:
  "ClientIPs (sample_options\<lparr>ClientIPs := []\<rparr>) = []
   \<and> setupNet sample_extern (Logger LogLevelError '''') (sample_options\<lparr>ClientIPs := []\<rparr>)
       = (Inl (Errorf ''client IP is required''), [])"
  using setupNet_no_client_IP [of "sample_options\<lparr>ClientIPs := []\<rparr>" sample_extern "Logger LogLevelError ''''"]
  by simp

text \<open>
  C3. When the client addresses hold at least one string that parses and at least one that
  does not, \<^verbatim>\<open>setupNet\<close> returns the wrapped parse error of a malformed entry and the
  trace is empty: no network stack is built from the addresses parsed so far.
\<close>

theorem setupNet_malformed_client_IP:
  assumes valid: "\<exists>s \<in> set (ClientIPs opts). \<not> isl (netip_ParseAddr ext s)"
    and malformed: "\<exists>s \<in> set (ClientIPs opts). isl (netip_ParseAddr ext s)"
  shows "\<exists>s \<in> set (ClientIPs opts). \<exists>err. netip_ParseAddr ext s = Inl err
           \<and> setupNet ext logger opts = (Inl (Wrap ''parse client IP'' err), [])"
proof -
  from malformed obtain s where s: "s \<in> set (ClientIPs opts)" "isl (netip_ParseAddr ext s)"
    by blast
  from parse_clientIPs_malformed [OF s, of "[]"] obtain s' err where
    s': "s' \<in> set (ClientIPs opts)" "netip_ParseAddr ext s' = Inl err"
        "parse_clientIPs ext (ClientIPs opts) [] = Inl (Wrap ''parse client IP'' err)"
    by blast
  from s(1) have "length (ClientIPs opts) \<noteq> 0" by auto
  with s'(3) have "setupNet ext logger opts = (Inl (Wrap ''parse client IP'' err), [])"
    by (simp add: setupNet_def)
  with s'(1,2) show ?thesis by blast
qed

theorem setupNet_malformed_client_IP_witness:
  "setupNet sample_extern (Logger LogLevelError '''')
      (sample_options\<lparr>ClientIPs := [''10.0.0.2'', ''10.0.0.300'', ''fd00::2'']\<rparr>)
     = (Inl (Wrap ''parse client IP'' (Errorf ''unable to parse IP'')), [])"
proof -
  let ?opts = "sample_options\<lparr>ClientIPs := [''10.0.0.2'', ''10.0.0.300'', ''fd00::2'']\<rparr>"
  have v: "\<exists>s \<in> set (ClientIPs ?opts). \<not> isl (netip_ParseAddr sample_extern s)"
    by (simp add: sample_extern_def sample_ParseAddr_def)
  have m: "\<exists>s \<in> set (ClientIPs ?opts). isl (netip_ParseAddr sample_extern s)"
    by (simp add: sample_extern_def sample_ParseAddr_def)
  from setupNet_malformed_client_IP [OF v m, of "Logger LogLevelError ''''"]
  show ?thesis
    by (auto simp add: sample_extern_def sample_ParseAddr_def split: if_splits)
qed

text \<open>
  C9. When the client addresses parse and \<^verbatim>\<open>CreateNetTUN\<close> succeeds, the first three
  calls of \<^verbatim>\<open>setupNet\<close> are, in this order: \<^verbatim>\<open>CreateNetTUN\<close> on the parsed
  addresses and the configured MTU, \<^verbatim>\<open>newConnBind\<close> on the configured client id, and
  \<^verbatim>\<open>NewDevice\<close> on the tun device of that stack and the bind of that call. Neither
  a stack nor a device is created again afterwards.
\<close>

theorem setupNet_stack_then_session:
  assumes "ClientIPs opts \<noteq> []"
    and "list_all2 (\<lambda>s ip. netip_ParseAddr ext s = Inr ip) (ClientIPs opts) clientIPs"
    and "netstack_CreateNetTUN ext clientIPs [] (MTU opts) = Inr (tun, tnet)"
  shows "\<exists>rest. snd (setupNet ext logger opts)
            = EvCreateNetTUN clientIPs [] (MTU opts)
              # EvNewConnBind (ClientID opts)
              # EvNewDevice tun (newConnBind ext (ClientID opts)) logger
              # rest
          \<and> (\<forall>t b l. EvNewDevice t b l \<notin> set rest)
          \<and> (\<forall>ips dns mtu. EvCreateNetTUN ips dns mtu \<notin> set rest)"
proof -
  from parse_clientIPs_all2 [OF assms(2), of "[]"]
  have "parse_clientIPs ext (ClientIPs opts) [] = Inr clientIPs" by simp
  with assms(1,3) show ?thesis
    by (auto simp add: setupNet_def Let_def split: option.splits
          dest: RoutineTUNEventReader_events)
qed

theorem setupNet_stack_then_session_witness:
  "take 3 (snd (setupNet sample_extern (Logger LogLevelError '''')
                  (sample_options\<lparr>ClientIPs := [''10.0.0.2'', ''fd00::2''], ClientID := ''abc''\<rparr>)))
     = [EvCreateNetTUN [Addr ''10.0.0.2'', Addr ''fd00::2''] [] 1280,
        EvNewConnBind ''abc'',
        EvNewDevice (TunDevice 1) (Bind 3) (Logger LogLevelError '''')]"
proof -
  let ?opts = "sample_options\<lparr>ClientIPs := [''10.0.0.2'', ''fd00::2''], ClientID := ''abc''\<rparr>"
  have a: "ClientIPs ?opts \<noteq> []" by simp
  have b: "list_all2 (\<lambda>s ip. netip_ParseAddr sample_extern s = Inr ip) (ClientIPs ?opts)
             [Addr ''10.0.0.2'', Addr ''fd00::2'']"
    by (simp add: sample_extern_def sample_ParseAddr_def)
  have c: "netstack_CreateNetTUN sample_extern [Addr ''10.0.0.2'', Addr ''fd00::2''] [] (MTU ?opts)
             = Inr (TunDevice 1, Net 1)"
    by (simp add: sample_extern_def)
  from setupNet_stack_then_session [OF a b c, of "Logger LogLevelError ''''"]
  obtain rest where "snd (setupNet sample_extern (Logger LogLevelError '''') ?opts)
            = EvCreateNetTUN [Addr ''10.0.0.2'', Addr ''fd00::2''] [] (MTU ?opts)
              # EvNewConnBind (ClientID ?opts)
              # EvNewDevice (TunDevice 1) (newConnBind sample_extern (ClientID ?opts))
                  (Logger LogLevelError '''')
              # rest"
    by auto
  then show ?thesis by (simp add: sample_extern_def sample_options_def)
qed




subsection \<open>proxyDialer and proxyListener\<close>

text \<open>
  C10. For an exit mode other than "local" and "remote" \<^verbatim>\<open>proxyDialer\<close> returns the nil
  function; the dialer is not nil exactly when the exit mode is one of the two.
\<close>

theorem proxyDialer_nil:
  "(ExitMode opts \<noteq> ''local'' \<and> ExitMode opts \<noteq> ''remote'' \<longrightarrow> proxyDialer opts tnet = NilDialer)
   \<and> (proxyDialer opts tnet \<noteq> NilDialer \<longleftrightarrow> ExitMode opts = ''local'' \<or> ExitMode opts = ''remote'')"
  by (simp add: proxyDialer_def)

theorem proxyDialer_nil_witness:
  "proxyDialer (sample_options\<lparr>ExitMode := ''both''\<rparr>) (Net 1) = NilDialer
   \<and> proxyDialer sample_options (Net 1) \<noteq> NilDialer"
  using proxyDialer_nil [of "sample_options\<lparr>ExitMode := ''both''\<rparr>" "Net 1"]
        proxyDialer_nil [of sample_options "Net 1"]
  by (simp add: sample_options_def)

text \<open>
  C1. For a listen address that resolves: with exit mode "remote" the dial function is the
  netstack's \<^verbatim>\<open>DialContext\<close> and the listener is the result of \<^verbatim>\<open>net.ListenTCP\<close>
  (the host stack), the netstack's \<^verbatim>\<open>ListenTCP\<close> not being called; with exit mode
  "local" the dial function is \<^verbatim>\<open>net.Dialer.DialContext\<close> and the listener is the
  result of the netstack's \<^verbatim>\<open>ListenTCP\<close>, \<^verbatim>\<open>net.ListenTCP\<close> not being called.
\<close>

theorem exit_mode_stacks:
  assumes "net_ResolveTCPAddr ext ''tcp'' (Listen opts) = Inr a"
  shows "(ExitMode opts = ''remote'' \<longrightarrow>
            proxyDialer opts tnet = tnet_DialContext tnet
            \<and> EvNetListenTCP ''tcp'' a \<in> set (snd (proxyListener ext logger opts tnet))
            \<and> (\<forall>n b. EvTnetListenTCP n b \<notin> set (snd (proxyListener ext logger opts tnet)))
            \<and> fst (proxyListener ext logger opts tnet)
                = (case net_ListenTCP ext ''tcp'' a of
                     Inl err \<Rightarrow> ListenerErr (Wrap ''create listener on local net'' err)
                   | Inr l \<Rightarrow> ListenerOk l))
       \<and> (ExitMode opts = ''local'' \<longrightarrow>
            proxyDialer opts tnet = net_Dialer_DialContext
            \<and> EvTnetListenTCP tnet a \<in> set (snd (proxyListener ext logger opts tnet))
            \<and> (\<forall>n b. EvNetListenTCP n b \<notin> set (snd (proxyListener ext logger opts tnet)))
            \<and> fst (proxyListener ext logger opts tnet)
                = (case tnet_ListenTCP ext tnet a of
                     Inl err \<Rightarrow> ListenerErr (Wrap ''create listener on netstack'' err)
                   | Inr l \<Rightarrow> ListenerOk l))"
proof (intro conjI impI)
  assume r: "ExitMode opts = ''remote''"
  from r show "proxyDialer opts tnet = tnet_DialContext tnet" by (simp add: proxyDialer_def)
  from r assms show "EvNetListenTCP ''tcp'' a \<in> set (snd (proxyListener ext logger opts tnet))"
    by (simp add: proxyListener_def split: sum.splits)
  from r assms show "\<forall>n b. EvTnetListenTCP n b \<notin> set (snd (proxyListener ext logger opts tnet))"
    by (auto simp add: proxyListener_def split: sum.splits dest: Verbosef_is_log)
  from r assms show "fst (proxyListener ext logger opts tnet)
                = (case net_ListenTCP ext ''tcp'' a of
                     Inl err \<Rightarrow> ListenerErr (Wrap ''create listener on local net'' err)
                   | Inr l \<Rightarrow> ListenerOk l)"
    by (simp add: proxyListener_def split: sum.splits)
next
  assume l: "ExitMode opts = ''local''"
  from l show "proxyDialer opts tnet = net_Dialer_DialContext" by (simp add: proxyDialer_def)
  from l assms show "EvTnetListenTCP tnet a \<in> set (snd (proxyListener ext logger opts tnet))"
    by (simp add: proxyListener_def split: sum.splits)
  from l assms show "\<forall>n b. EvNetListenTCP n b \<notin> set (snd (proxyListener ext logger opts tnet))"
    by (auto simp add: proxyListener_def split: sum.splits dest: Verbosef_is_log)
  from l assms show "fst (proxyListener ext logger opts tnet)
                = (case tnet_ListenTCP ext tnet a of
                     Inl err \<Rightarrow> ListenerErr (Wrap ''create listener on netstack'' err)
                   | Inr l \<Rightarrow> ListenerOk l)"
    by (simp add: proxyListener_def split: sum.splits)
qed

theorem exit_mode_stacks_witness:
  "proxyDialer sample_options (Net 1) = tnet_DialContext (Net 1)
   \<and> EvNetListenTCP ''tcp'' (TCPAddr ''localhost:8080'')
       \<in> set (snd (proxyListener sample_extern (Logger LogLevelVerbose '''') sample_options (Net 1)))
   \<and> fst (proxyListener sample_extern (Logger LogLevelVerbose '''') sample_options (Net 1))
       = ListenerOk (Listener 2)
   \<and> proxyDialer (sample_options\<lparr>ExitMode := ''local''\<rparr>) (Net 1) = net_Dialer_DialContext
   \<and> EvTnetListenTCP (Net 1) (TCPAddr ''localhost:8080'')
       \<in> set (snd (proxyListener sample_extern (Logger LogLevelVerbose '''')
                     (sample_options\<lparr>ExitMode := ''local''\<rparr>) (Net 1)))
   \<and> fst (proxyListener sample_extern (Logger LogLevelVerbose '''')
            (sample_options\<lparr>ExitMode := ''local''\<rparr>) (Net 1))
       = ListenerOk (Listener 1)"
proof -
  let ?local = "sample_options\<lparr>ExitMode := ''local''\<rparr>"
  have r: "net_ResolveTCPAddr sample_extern ''tcp'' (Listen sample_options)
             = Inr (TCPAddr ''localhost:8080'')"
    by (simp add: sample_extern_def sample_options_def)
  have l: "net_ResolveTCPAddr sample_extern ''tcp'' (Listen ?local)
             = Inr (TCPAddr ''localhost:8080'')"
    by (simp add: sample_extern_def sample_options_def)
  have mr: "ExitMode sample_options = ''remote''" by (simp add: sample_options_def)
  have ml: "ExitMode ?local = ''local''" by simp
  have nr: "net_ListenTCP sample_extern ''tcp'' (TCPAddr ''localhost:8080'') = Inr (Listener 2)"
    by (simp add: sample_extern_def)
  have nl: "tnet_ListenTCP sample_extern (Net 1) (TCPAddr ''localhost:8080'') = Inr (Listener 1)"
    by (simp add: sample_extern_def)
  from exit_mode_stacks [OF r, where tnet = "Net 1" and logger = "Logger LogLevelVerbose ''''"]
       exit_mode_stacks [OF l, where tnet = "Net 1" and logger = "Logger LogLevelVerbose ''''"]
       mr ml nr nl
  show ?thesis by simp
qed

subsection \<open>main\<close>

lemma main_parse_error:
  "main ext (Inl err) = (Exit (if err = flags_Error ErrHelp then 0 else 1), [])"
  by (cases err) (auto simp add: main_def)

lemma main_code:
  "fst (main ext (Inr opts)) =
     (case fst (setupNet ext (main_logger opts) opts) of
        Inl e \<Rightarrow> Exit 1
      | Inr (dev, tnet) \<Rightarrow>
          (case fst (proxyListener ext (main_logger opts) opts tnet) of
             ListenerErr e \<Rightarrow> Exit 1
           | NilListenerPanic \<Rightarrow> Panic
           | ListenerOk listener \<Rightarrow>
               (case proxier_Serve ext (Proxy (proxyDialer opts tnet) (DNS opts) (stats dev))
                       listener of
                  ServeReturns \<Rightarrow> Exit 1
                | ServeBlocks \<Rightarrow> Serving)))"
  by (simp add: main_def Let_def
        split: prod.splits sum.splits listener_result.splits serve_outcome.splits)

lemma sample_setupNet:
  "fst (setupNet sample_extern (main_logger sample_options) sample_options)
     = Inr (Device 1, Net 1)"
  by (simp add: setupNet_def Let_def sample_extern_def sample_options_def sample_ParseAddr_def)

lemma sample_proxyListener:
  "fst (proxyListener sample_extern (main_logger sample_options) sample_options (Net 1))
     = ListenerOk (Listener 2)"
  by (simp add: proxyListener_def sample_extern_def sample_options_def)

text \<open>
  C5. An error returned by \<^verbatim>\<open>setupNet\<close> is the missing-address error or the error of
  one of its stages (address parsing, stack creation, device configuration, activation)
  wrapped with that stage's message; \<^verbatim>\<open>main\<close> then logs it and exits with code 1
  without resolving the listen address, listening or serving. Conversely, when
  \<^verbatim>\<open>setupNet\<close> succeeds every stage has succeeded: no error is dropped.
\<close>

theorem setupNet_error_wrapped_and_fatal:
  "case fst (setupNet ext (main_logger opts) opts) of
     Inl e \<Rightarrow>
       ((ClientIPs opts = [] \<and> e = Errorf ''client IP is required'')
        \<or> (\<exists>s \<in> set (ClientIPs opts). \<exists>err.
              netip_ParseAddr ext s = Inl err \<and> e = Wrap ''parse client IP'' err)
        \<or> (\<exists>ips err. netstack_CreateNetTUN ext ips [] (MTU opts) = Inl err
              \<and> e = Wrap ''create netstack tun'' err)
        \<or> (\<exists>dev err. ipcSet ext opts dev = Some err \<and> e = Wrap ''config device'' err)
        \<or> (\<exists>dev err. dev_Up ext dev = Some err \<and> e = Wrap ''bring up device'' err))
       \<and> fst (main ext (Inr opts)) = Exit 1
       \<and> last (snd (main ext (Inr opts))) = EvLog ''Setup netstack: %v'' (ArgError e)
       \<and> (\<forall>ev \<in> set (snd (main ext (Inr opts))).
             (\<forall>n a. ev \<noteq> EvResolveTCPAddr n a) \<and> (\<forall>n a. ev \<noteq> EvTnetListenTCP n a)
             \<and> (\<forall>n a. ev \<noteq> EvNetListenTCP n a) \<and> (\<forall>p l. ev \<noteq> EvServe p l))
   | Inr (dev, tnet) \<Rightarrow>
       (\<exists>ips tun. list_all2 (\<lambda>s ip. netip_ParseAddr ext s = Inr ip) (ClientIPs opts) ips
           \<and> netstack_CreateNetTUN ext ips [] (MTU opts) = Inr (tun, tnet)
           \<and> dev = device_NewDevice ext tun (newConnBind ext (ClientID opts)) (main_logger opts)
           \<and> ipcSet ext opts dev = None \<and> dev_Up ext dev = None)"
proof (cases "fst (setupNet ext (main_logger opts) opts)")
  case (Inl e)
  note stage = setupNet_Inl [OF Inl]
  note m = main_setup_failed [OF Inl]
  have code: "fst (main ext (Inr opts)) = Exit 1" by (simp add: m)
  have lst: "last (snd (main ext (Inr opts))) = EvLog ''Setup netstack: %v'' (ArgError e)"
    by (simp add: m)
  have quiet: "\<forall>ev \<in> set (snd (main ext (Inr opts))).
             (\<forall>n a. ev \<noteq> EvResolveTCPAddr n a) \<and> (\<forall>n a. ev \<noteq> EvTnetListenTCP n a)
             \<and> (\<forall>n a. ev \<noteq> EvNetListenTCP n a) \<and> (\<forall>p l. ev \<noteq> EvServe p l)"
  proof
    fix ev assume "ev \<in> set (snd (main ext (Inr opts)))"
    then consider "ev \<in> set (Verbosef (main_logger opts) ''Options: %+v'' (ArgOptions opts))"
      | "ev \<in> set (snd (setupNet ext (main_logger opts) opts))"
      | "ev = EvLog ''Setup netstack: %v'' (ArgError e)"
      by (auto simp add: m)
    then show "(\<forall>n a. ev \<noteq> EvResolveTCPAddr n a) \<and> (\<forall>n a. ev \<noteq> EvTnetListenTCP n a)
             \<and> (\<forall>n a. ev \<noteq> EvNetListenTCP n a) \<and> (\<forall>p l. ev \<noteq> EvServe p l)"
    proof cases
      case 1
      from Verbosef_is_log [OF 1] show ?thesis by simp
    next
      case 2
      from setupNet_trace_no_listen [OF 2] show ?thesis .
    next
      case 3
      then show ?thesis by simp
    qed
  qed
  from stage code lst quiet show ?thesis unfolding Inl sum.case by (intro conjI)
next
  case (Inr p)
  obtain dev tnet where p: "p = (dev, tnet)" by (cases p)
  from setupNet_Inr [OF Inr [unfolded p]] show ?thesis unfolding Inr p sum.case prod.case .
qed

theorem setupNet_error_wrapped_and_fatal_witness:
  "fst (setupNet (sample_extern\<lparr>dev_Up := (\<lambda>dev. Some (Errorf ''bind failed''))\<rparr>)
          (main_logger sample_options) sample_options)
     = Inl (Wrap ''bring up device'' (Errorf ''bind failed''))
   \<and> fst (main (sample_extern\<lparr>dev_Up := (\<lambda>dev. Some (Errorf ''bind failed''))\<rparr>)
             (Inr sample_options)) = Exit 1
   \<and> last (snd (main (sample_extern\<lparr>dev_Up := (\<lambda>dev. Some (Errorf ''bind failed''))\<rparr>)
             (Inr sample_options)))
       = EvLog ''Setup netstack: %v''
           (ArgError (Wrap ''bring up device'' (Errorf ''bind failed'')))"
proof -
  let ?ext = "sample_extern\<lparr>dev_Up := (\<lambda>dev. Some (Errorf ''bind failed''))\<rparr>"
  have s: "fst (setupNet ?ext (main_logger sample_options) sample_options)
             = Inl (Wrap ''bring up device'' (Errorf ''bind failed''))"
    by (simp add: setupNet_def Let_def sample_extern_def sample_options_def sample_ParseAddr_def)
  from setupNet_error_wrapped_and_fatal [where ext = ?ext and opts = sample_options] s show ?thesis
    by simp
qed

text \<open>
  C6. The exit code is 0 exactly when the parser returns a flags error of type help. It is 1
  on every other parse error, on an error of \<^verbatim>\<open>setupNet\<close>, on an error of
  \<^verbatim>\<open>proxyListener\<close>, and when the serve call returns.
\<close>

theorem main_exit_code:
  "(fst (main ext parsed) = Exit 0 \<longleftrightarrow> parsed = Inl (flags_Error ErrHelp))
   \<and> (\<forall>err. parsed = Inl err \<and> err \<noteq> flags_Error ErrHelp \<longrightarrow> fst (main ext parsed) = Exit 1)
   \<and> (\<forall>opts e. parsed = Inr opts \<and> fst (setupNet ext (main_logger opts) opts) = Inl e
         \<longrightarrow> fst (main ext parsed) = Exit 1)
   \<and> (\<forall>opts dev tnet e. parsed = Inr opts
         \<and> fst (setupNet ext (main_logger opts) opts) = Inr (dev, tnet)
         \<and> fst (proxyListener ext (main_logger opts) opts tnet) = ListenerErr e
         \<longrightarrow> fst (main ext parsed) = Exit 1)
   \<and> (\<forall>opts dev tnet listener. parsed = Inr opts
         \<and> fst (setupNet ext (main_logger opts) opts) = Inr (dev, tnet)
         \<and> fst (proxyListener ext (main_logger opts) opts tnet) = ListenerOk listener
         \<and> proxier_Serve ext (Proxy (proxyDialer opts tnet) (DNS opts) (stats dev)) listener
             = ServeReturns
         \<longrightarrow> fst (main ext parsed) = Exit 1)"
proof (intro conjI allI impI)
  show "fst (main ext parsed) = Exit 0 \<longleftrightarrow> parsed = Inl (flags_Error ErrHelp)"
  proof (cases parsed)
    case (Inl err)
    then show ?thesis by (simp add: main_parse_error)
  next
    case (Inr opts)
    then show ?thesis
      by (simp add: main_code
            split: prod.splits sum.splits listener_result.splits serve_outcome.splits)
  qed
next
  fix err assume "parsed = Inl err \<and> err \<noteq> flags_Error ErrHelp"
  then show "fst (main ext parsed) = Exit 1" by (simp add: main_parse_error)
next
  fix opts e
  assume "parsed = Inr opts \<and> fst (setupNet ext (main_logger opts) opts) = Inl e"
  then show "fst (main ext parsed) = Exit 1" by (simp add: main_code)
next
  fix opts dev tnet e
  assume "parsed = Inr opts
         \<and> fst (setupNet ext (main_logger opts) opts) = Inr (dev, tnet)
         \<and> fst (proxyListener ext (main_logger opts) opts tnet) = ListenerErr e"
  then show "fst (main ext parsed) = Exit 1" by (simp add: main_code)
next
  fix opts dev tnet listener
  assume "parsed = Inr opts
         \<and> fst (setupNet ext (main_logger opts) opts) = Inr (dev, tnet)
         \<and> fst (proxyListener ext (main_logger opts) opts tnet) = ListenerOk listener
         \<and> proxier_Serve ext (Proxy (proxyDialer opts tnet) (DNS opts) (stats dev)) listener
             = ServeReturns"
  then show "fst (main ext parsed) = Exit 1" by (simp add: main_code)
qed

theorem main_exit_code_witness:
  "fst (main sample_extern (Inl (flags_Error ErrHelp))) = Exit 0
   \<and> fst (main sample_extern (Inl (flags_Error (ErrOtherType 0)))) = Exit 1
   \<and> fst (main sample_extern (Inr (sample_options\<lparr>ClientIPs := []\<rparr>))) = Exit 1
   \<and> fst (main (sample_extern\<lparr>net_ListenTCP := (\<lambda>n a. Inl (Errorf ''address in use''))\<rparr>)
             (Inr sample_options)) = Exit 1
   \<and> fst (main sample_extern (Inr sample_options)) = Exit 1"
proof -
  let ?busy = "sample_extern\<lparr>net_ListenTCP := (\<lambda>n a. Inl (Errorf ''address in use''))\<rparr>"
  have a: "fst (main sample_extern (Inl (flags_Error ErrHelp))) = Exit 0"
    using main_exit_code [where ext = sample_extern and parsed = "Inl (flags_Error ErrHelp)"] by simp
  have b: "fst (main sample_extern (Inl (flags_Error (ErrOtherType 0)))) = Exit 1"
    using main_exit_code [where ext = sample_extern and parsed = "Inl (flags_Error (ErrOtherType 0))"] by simp
  have "fst (setupNet sample_extern (main_logger (sample_options\<lparr>ClientIPs := []\<rparr>))
               (sample_options\<lparr>ClientIPs := []\<rparr>)) = Inl (Errorf ''client IP is required'')"
    by (simp add: setupNet_def)
  then have c: "fst (main sample_extern (Inr (sample_options\<lparr>ClientIPs := []\<rparr>))) = Exit 1"
    using main_exit_code [where ext = sample_extern and parsed = "Inr (sample_options\<lparr>ClientIPs := []\<rparr>)"] by simp
  have "fst (setupNet ?busy (main_logger sample_options) sample_options) = Inr (Device 1, Net 1)"
    by (simp add: setupNet_def Let_def sample_extern_def sample_options_def sample_ParseAddr_def)
  moreover have "fst (proxyListener ?busy (main_logger sample_options) sample_options (Net 1))
      = ListenerErr (Wrap ''create listener on local net'' (Errorf ''address in use''))"
    by (simp add: proxyListener_def sample_extern_def sample_options_def)
  ultimately have d: "fst (main ?busy (Inr sample_options)) = Exit 1"
    using main_exit_code [where ext = ?busy and parsed = "Inr sample_options"] by simp
  have "proxier_Serve sample_extern
          (Proxy (proxyDialer sample_options (Net 1)) (DNS sample_options) (stats (Device 1)))
          (Listener 2) = ServeReturns"
    by (simp add: sample_extern_def)
  with sample_setupNet sample_proxyListener
  have e: "fst (main sample_extern (Inr sample_options)) = Exit 1"
    using main_exit_code [where ext = sample_extern and parsed = "Inr sample_options"] by simp
  from a b c d e show ?thesis by (intro conjI)
qed

subsection \<open>The Endpoint Resolver\<close>

text \<open>
  C8. With a resolve interval of 0, no sequence of would-be resolution triggers changes the
  resolver's state: the peer address stays the one set at session configuration and no
  resolution is performed.
\<close>

theorem resolver_interval_zero:
  "ResolveInterval opts = 0 \<Longrightarrow> resolver_run (ResolveInterval opts) st rs = st"
  by (induction rs arbitrary: st) (simp_all add: resolver_trigger_def)

theorem resolver_interval_zero_witness:
  "resolver_run (ResolveInterval (sample_options\<lparr>ResolveInterval := 0\<rparr>))
      \<lparr>peer_endpoint = ''192.0.2.1:51820'', resolutions = 0\<rparr>
      [Resolved ''192.0.2.7:51820'', ResolveFailed, Resolved ''192.0.2.9:51820'']
     = \<lparr>peer_endpoint = ''192.0.2.1:51820'', resolutions = 0\<rparr>
   \<and> resolver_run (ResolveInterval sample_options)
      \<lparr>peer_endpoint = ''192.0.2.1:51820'', resolutions = 0\<rparr>
      [Resolved ''192.0.2.7:51820'', ResolveFailed]
     = \<lparr>peer_endpoint = ''192.0.2.7:51820'', resolutions = 2\<rparr>"
  using resolver_interval_zero [of "sample_options\<lparr>ResolveInterval := 0\<rparr>"
      "\<lparr>peer_endpoint = ''192.0.2.1:51820'', resolutions = 0\<rparr>"
      "[Resolved ''192.0.2.7:51820'', ResolveFailed, Resolved ''192.0.2.9:51820'']"]
  by (simp add: resolver_trigger_def sample_options_def)

end
